theory Spec2Isabelle
  imports Complex_Main "HOL-Library.Sublist"
begin

section \<open>Python values and parameter mappings\<close>

text \<open>
  The validators of \<^verbatim>\<open>clipsai/clip/clip_request_validator.py\<close> and
  \<^verbatim>\<open>clipsai/transcribe_clip/clip_request_validator.py\<close> receive a Python
  \<^verbatim>\<open>dict\<close> whose keys are strings and whose values are whatever the caller or
  the deserialised request body holds. Values are modelled as the JSON-shaped Python
  objects: \<^verbatim>\<open>None\<close>, booleans, unbounded integers, floats, strings, lists and
  nested dictionaries. A float is a finite real number, an infinity or a NaN; the
  validators only pass floats on and never compute with them. A string is a list of
  8-bit characters (the UTF-8 encoding of the Python string); the suffixes the code looks
  for are ASCII, so a suffix test on the bytes agrees with one on the code points.
\<close>

datatype pyfloat = Finite real | PosInf | NegInf | NaN

datatype pyval =
    PNone
  | PBool bool
  | PInt int
  | PFloat pyfloat
  | PStr string
  | PList "pyval list"
  | PDict "(string \<times> pyval) list"

type_synonym pydict = "string \<rightharpoonup> pyval"

text \<open>
  The exceptions the two source files can raise themselves: a subscript
  \<^verbatim>\<open>data[key]\<close> on a missing key raises \<^verbatim>\<open>KeyError(key)\<close>, and the
  attribute access \<^verbatim>\<open>.endswith\<close> on an object that is not a string raises
  \<^verbatim>\<open>AttributeError\<close>. A call either returns a value or raises.
\<close>

datatype exn = KeyError string | AttributeError

datatype 'a result = Returns 'a | Raises exn

definition and_then :: "'a result \<Rightarrow> ('a \<Rightarrow> 'b result) \<Rightarrow> 'b result" where
  "and_then r f = (case r of Raises x \<Rightarrow> Raises x | Returns v \<Rightarrow> f v)"

definition getitem :: "pydict \<Rightarrow> string \<Rightarrow> pyval result" where
  "getitem data key = (case data key of None \<Rightarrow> Raises (KeyError key) | Some v \<Rightarrow> Returns v)"

text \<open>\<^verbatim>\<open>s.endswith(suffix)\<close> on strings: the last characters of \<open>s\<close> are the suffix.\<close>

definition endswith :: "string \<Rightarrow> string \<Rightarrow> bool" where
  "endswith s suf = (drop (length s - length suf) s = suf)"

section \<open>Collaborators that live outside the two source files\<close>

text \<open>
  The validators call five functions of the package that are defined in other modules:
  the existence-and-type checks of the base classes \<^verbatim>\<open>InputValidator\<close> and
  \<^verbatim>\<open>RequestValidator\<close>, \<^verbatim>\<open>check_valid_torch_device\<close> of
  \<^verbatim>\<open>utils.pytorch\<close>, and \<^verbatim>\<open>check_valid_config\<close> of the text-tiling and of
  the transcriber configuration managers. The input validator imports
  \<^verbatim>\<open>TextTileClipFinderConfigManager\<close> from \<^verbatim>\<open>.texttile_config_manager\<close>,
  the request validator from \<^verbatim>\<open>..ml.clipfind.texttile_config_manager\<close>, so the two
  classes are kept apart. Each collaborator is a parameter of the model: a function that
  returns \<^verbatim>\<open>None\<close> or an error message and has no effect on its argument, as its
  callers' \<^verbatim>\<open>if error is not None\<close> expects.

  The type specification \<^verbatim>\<open>correct_types\<close> is a dictionary literal from field name
  to a type or a tuple of types, kept as the list of its items in source order.
\<close>

datatype pytype = TStr | TNoneType | TFloat | TInt | TBool | TList | TDict

type_synonym type_spec = "(string \<times> pytype list) list"

record collaborators =
  check_input_data_existence_and_types :: "pydict \<Rightarrow> type_spec \<Rightarrow> string option"
  check_request_data_existence_and_types :: "pydict \<Rightarrow> type_spec \<Rightarrow> string option"
  check_valid_torch_device :: "pyval \<Rightarrow> string option"
  clip_texttile_check_valid_config :: "pydict \<Rightarrow> string option"
  ml_texttile_check_valid_config :: "pydict \<Rightarrow> string option"
  whisperx_check_valid_config :: "pydict \<Rightarrow> string option"

section \<open>The input validator\<close>

definition input_correct_types :: type_spec where
  "input_correct_types =
     [(''mediaFilePath'', [TStr]),
      (''computeDevice'', [TStr, TNoneType]),
      (''cutoffPolicy'', [TStr]),
      (''embeddingAggregationPoolMethod'', [TStr]),
      (''minClipTime'', [TFloat, TInt]),
      (''maxClipTime'', [TFloat, TInt]),
      (''smoothingWidth'', [TInt]),
      (''windowComparePoolMethod'', [TStr])]"

text \<open>
  The dictionary literal \<^verbatim>\<open>texttile_config = {"cutoff_policy": data["cutoffPolicy"], ...}\<close>
  (the same text in both validators). Python evaluates the six subscripts in the order
  written; the first missing key raises.
\<close>

definition texttile_config_of :: "pydict \<Rightarrow> pydict result" where
  "texttile_config_of data =
     and_then (getitem data ''cutoffPolicy'') (\<lambda>cutoff_policy.
     and_then (getitem data ''embeddingAggregationPoolMethod'') (\<lambda>embedding_aggregation_pool_method.
     and_then (getitem data ''maxClipTime'') (\<lambda>max_clip_duration_secs.
     and_then (getitem data ''minClipTime'') (\<lambda>min_clip_duration_secs.
     and_then (getitem data ''smoothingWidth'') (\<lambda>smoothing_width.
     and_then (getitem data ''windowComparePoolMethod'') (\<lambda>window_compare_pool_method.
       Returns [''cutoff_policy'' \<mapsto> cutoff_policy,
                ''embedding_aggregation_pool_method'' \<mapsto> embedding_aggregation_pool_method,
                ''max_clip_duration_secs'' \<mapsto> max_clip_duration_secs,
                ''min_clip_duration_secs'' \<mapsto> min_clip_duration_secs,
                ''smoothing_width'' \<mapsto> smoothing_width,
                ''window_compare_pool_method'' \<mapsto> window_compare_pool_method]))))))"

definition extension_error :: "string \<Rightarrow> string" where
  "extension_error media_file_path =
     ''mediaFilePath must be of type mp3 or mp4. Received: '' @ media_file_path"

text \<open>
  \<^verbatim>\<open>check_valid_input_data\<close>, statement by statement. The function returns its
  result together with the dictionary as the call leaves it, so that what the call does
  to the caller's mapping is part of the model.
\<close>

definition check_valid_input_data ::
  "collaborators \<Rightarrow> pydict \<Rightarrow> string option result \<times> pydict" where
  "check_valid_input_data env input_data =
     (case check_input_data_existence_and_types env input_data input_correct_types of
        Some error \<Rightarrow> (Returns (Some error), input_data)
      | None \<Rightarrow>
     (case getitem input_data ''mediaFilePath'' of
        Raises x \<Rightarrow> (Raises x, input_data)
      | Returns (PStr media_file_path) \<Rightarrow>
          if \<not> (endswith media_file_path ''.mp3'' \<or> endswith media_file_path ''.mp4'')
          then (Returns (Some (extension_error media_file_path)), input_data)
          else
     (case getitem input_data ''computeDevice'' of
        Raises x \<Rightarrow> (Raises x, input_data)
      | Returns compute_device \<Rightarrow>
     (case (if compute_device \<noteq> PNone then check_valid_torch_device env compute_device
            else None) of
        Some error \<Rightarrow> (Returns (Some error), input_data)
      | None \<Rightarrow>
     (case texttile_config_of input_data of
        Raises x \<Rightarrow> (Raises x, input_data)
      | Returns texttile_config \<Rightarrow>
     (case clip_texttile_check_valid_config env texttile_config of
        Some error \<Rightarrow> (Returns (Some error), input_data)
      | None \<Rightarrow> (Returns None, input_data)))))
      | Returns _ \<Rightarrow> (Raises AttributeError, input_data)))"

section \<open>The request validator\<close>

definition request_correct_types :: type_spec where
  "request_correct_types =
     [(''mediaFilePath'', [TStr]),
      (''computeDevice'', [TStr, TNoneType]),
      (''precision'', [TStr, TNoneType]),
      (''languageCode'', [TStr]),
      (''whisperModelSize'', [TStr, TNoneType]),
      (''cutoffPolicy'', [TStr]),
      (''embeddingAggregationPoolMethod'', [TStr]),
      (''minClipTime'', [TFloat, TInt]),
      (''maxClipTime'', [TFloat, TInt]),
      (''smoothingWidth'', [TInt]),
      (''windowComparePoolMethod'', [TStr])]"

definition whisperx_config_of :: "pydict \<Rightarrow> pydict result" where
  "whisperx_config_of data =
     and_then (getitem data ''languageCode'') (\<lambda>language.
     and_then (getitem data ''whisperModelSize'') (\<lambda>model_size.
     and_then (getitem data ''precision'') (\<lambda>precision.
       Returns [''language'' \<mapsto> language,
                ''model_size'' \<mapsto> model_size,
                ''precision'' \<mapsto> precision])))"

definition check_valid_request_data ::
  "collaborators \<Rightarrow> pydict \<Rightarrow> string option result \<times> pydict" where
  "check_valid_request_data env request_data =
     (case check_request_data_existence_and_types env request_data request_correct_types of
        Some error \<Rightarrow> (Returns (Some error), request_data)
      | None \<Rightarrow>
     (case getitem request_data ''mediaFilePath'' of
        Raises x \<Rightarrow> (Raises x, request_data)
      | Returns (PStr media_file_path) \<Rightarrow>
          if \<not> (endswith media_file_path ''.mp3'' \<or> endswith media_file_path ''.mp4'')
          then (Returns (Some (extension_error media_file_path)), request_data)
          else
     (case getitem request_data ''computeDevice'' of
        Raises x \<Rightarrow> (Raises x, request_data)
      | Returns compute_device \<Rightarrow>
     (case (if compute_device \<noteq> PNone then check_valid_torch_device env compute_device
            else None) of
        Some error \<Rightarrow> (Returns (Some error), request_data)
      | None \<Rightarrow>
     (case whisperx_config_of request_data of
        Raises x \<Rightarrow> (Raises x, request_data)
      | Returns whisperx_config \<Rightarrow>
     (case whisperx_check_valid_config env whisperx_config of
        Some error \<Rightarrow> (Returns (Some error), request_data)
      | None \<Rightarrow>
     (case texttile_config_of request_data of
        Raises x \<Rightarrow> (Raises x, request_data)
      | Returns texttile_config \<Rightarrow>
     (case ml_texttile_check_valid_config env texttile_config of
        Some error \<Rightarrow> (Returns (Some error), request_data)
      | None \<Rightarrow> (Returns None, request_data)))))))
      | Returns _ \<Rightarrow> (Raises AttributeError, request_data)))"

section \<open>Default imputation\<close>

text \<open>
  Both \<^verbatim>\<open>impute_input_data_defaults\<close> and \<^verbatim>\<open>impute_request_data_defaults\<close>
  run the same loop over their own table:
  \<^verbatim>\<open>for key in optional_fields_default_values.keys():
      if key not in data: data[key] = optional_fields_default_values[key]\<close>
  and return the mutated dictionary. The table is a dictionary literal, kept here as the
  list of its items in source order; the loop is a fold over that list, and the function
  returns the dictionary after the loop.
\<close>

definition impute_field :: "string \<times> pyval \<Rightarrow> pydict \<Rightarrow> pydict" where
  "impute_field item data =
     (case data (fst item) of None \<Rightarrow> data(fst item \<mapsto> snd item) | Some _ \<Rightarrow> data)"

definition impute_defaults :: "(string \<times> pyval) list \<Rightarrow> pydict \<Rightarrow> pydict" where
  "impute_defaults optional_fields_default_values data =
     fold impute_field optional_fields_default_values data"

definition input_optional_fields_default_values :: "(string \<times> pyval) list" where
  "input_optional_fields_default_values =
     [(''computeDevice'', PNone),
      (''cutoffPolicy'', PStr ''high''),
      (''embeddingAggregationPoolMethod'', PStr ''max''),
      (''minClipTime'', PInt 15),
      (''maxClipTime'', PInt 900),
      (''smoothingWidth'', PInt 3),
      (''windowComparePoolMethod'', PStr ''mean'')]"

definition request_optional_fields_default_values :: "(string \<times> pyval) list" where
  "request_optional_fields_default_values =
     [(''computeDevice'', PNone),
      (''precision'', PNone),
      (''languageCode'', PStr ''en''),
      (''whisperModelSize'', PNone),
      (''cutoffPolicy'', PStr ''high''),
      (''embeddingAggregationPoolMethod'', PStr ''max''),
      (''minClipTime'', PInt 15),
      (''maxClipTime'', PInt 900),
      (''smoothingWidth'', PInt 3),
      (''windowComparePoolMethod'', PStr ''mean'')]"

definition impute_input_data_defaults :: "pydict \<Rightarrow> pydict" where
  "impute_input_data_defaults input_data =
     impute_defaults input_optional_fields_default_values input_data"

definition impute_request_data_defaults :: "pydict \<Rightarrow> pydict" where
  "impute_request_data_defaults request_data =
     impute_defaults request_optional_fields_default_values request_data"

section \<open>The checks one at a time, and their fail-fast composition\<close>

text \<open>
  The specification describes validation as five checks run in a fixed order, the first
  result that is not \<^verbatim>\<open>None\<close> being returned at once. Each check is written here
  on its own, as what that block of the source does when control reaches it (an error
  message, \<^verbatim>\<open>None\<close>, or an exception of a subscript or attribute access), and
  \<open>first_failure\<close> is the fail-fast composition: it walks the list and stops at the
  first entry that is not \<open>Returns None\<close>.
\<close>

fun first_failure :: "string option result list \<Rightarrow> string option result" where
  "first_failure [] = Returns None"
| "first_failure (Returns None # later) = first_failure later"
| "first_failure (r # later) = r"

definition input_existence_step :: "collaborators \<Rightarrow> pydict \<Rightarrow> string option result" where
  "input_existence_step env data =
     Returns (check_input_data_existence_and_types env data input_correct_types)"

definition request_existence_step :: "collaborators \<Rightarrow> pydict \<Rightarrow> string option result" where
  "request_existence_step env data =
     Returns (check_request_data_existence_and_types env data request_correct_types)"

definition extension_step :: "pydict \<Rightarrow> string option result" where
  "extension_step data =
     (case data ''mediaFilePath'' of
        None \<Rightarrow> Raises (KeyError ''mediaFilePath'')
      | Some (PStr p) \<Rightarrow>
          Returns (if endswith p ''.mp3'' \<or> endswith p ''.mp4'' then None
                   else Some (extension_error p))
      | Some _ \<Rightarrow> Raises AttributeError)"

definition device_step :: "collaborators \<Rightarrow> pydict \<Rightarrow> string option result" where
  "device_step env data =
     (case data ''computeDevice'' of
        None \<Rightarrow> Raises (KeyError ''computeDevice'')
      | Some PNone \<Rightarrow> Returns None
      | Some device \<Rightarrow> Returns (check_valid_torch_device env device))"

definition transcriber_step :: "collaborators \<Rightarrow> pydict \<Rightarrow> string option result" where
  "transcriber_step env data =
     and_then (whisperx_config_of data) (\<lambda>config. Returns (whisperx_check_valid_config env config))"

definition clip_finder_step :: "(pydict \<Rightarrow> string option) \<Rightarrow> pydict \<Rightarrow> string option result" where
  "clip_finder_step check_valid_config data =
     and_then (texttile_config_of data) (\<lambda>config. Returns (check_valid_config config))"

definition passes :: "string option result list \<Rightarrow> bool" where
  "passes steps = list_all (\<lambda>r. r = Returns None) steps"

section \<open>The collaborators as the specification describes them\<close>

definition type_of :: "pyval \<Rightarrow> pytype" where
  "type_of v =
     (case v of PNone \<Rightarrow> TNoneType | PBool _ \<Rightarrow> TBool | PInt _ \<Rightarrow> TInt | PFloat _ \<Rightarrow> TFloat
      | PStr _ \<Rightarrow> TStr | PList _ \<Rightarrow> TList | PDict _ \<Rightarrow> TDict)"

definition type_name :: "pytype \<Rightarrow> string" where
  "type_name T =
     (case T of TStr \<Rightarrow> ''str'' | TNoneType \<Rightarrow> ''NoneType'' | TFloat \<Rightarrow> ''float''
      | TInt \<Rightarrow> ''int'' | TBool \<Rightarrow> ''bool'' | TList \<Rightarrow> ''list'' | TDict \<Rightarrow> ''dict'')"

definition type_names :: "pytype list \<Rightarrow> string" where
  "type_names Ts = concat (map (\<lambda>T. type_name T @ '' '') Ts)"

text \<open>
  Modelled from the spec: the existence-and-type check of the base classes
  (\<^verbatim>\<open>InputValidator.check_input_data_existence_and_types\<close> and
  \<^verbatim>\<open>RequestValidator.check_request_data_existence_and_types\<close>), whose modules are
  not among the source files. Section 4.3, step 1: for every field of the type
  specification, fail with "missing field <name>" if the field is absent; fail with
  "field <name> has invalid type, expected one of <types>, got <actual>" if it is present
  with a type outside the accepted set. The section exempts an absent field only when
  its type-set includes the absent/null marker and a default will be applied at a later
  stage. A validation call applies no default after this check (imputation is a separate
  function, which the caller runs before validating), so within the call no absent field
  is exempt: every key of the type specification that the mapping lacks is reported. The
  null marker in a type-set admits the value None for a key that is present. The fields
  are visited in the order of the specification and the first failure is the result.
\<close>

fun spec_check_existence_and_types :: "pydict \<Rightarrow> type_spec \<Rightarrow> string option" where
  "spec_check_existence_and_types data [] = None"
| "spec_check_existence_and_types data ((name, types) # rest) =
     (case data name of
        None \<Rightarrow> Some (''missing field '' @ name)
      | Some v \<Rightarrow>
          if type_of v \<in> set types then spec_check_existence_and_types data rest
          else Some (''field '' @ name @ '' has invalid type, expected one of ''
                       @ type_names types @ '', got '' @ type_name (type_of v)))"

text \<open>
  Python compares an integer with a float by value, exactly; a comparison with a NaN is
  false.
\<close>

fun float_le :: "pyfloat \<Rightarrow> pyfloat \<Rightarrow> bool" where
  "float_le NaN _ = False"
| "float_le _ NaN = False"
| "float_le NegInf _ = True"
| "float_le _ PosInf = True"
| "float_le (Finite a) (Finite b) = (a \<le> b)"
| "float_le _ _ = False"

fun float_less :: "pyfloat \<Rightarrow> pyfloat \<Rightarrow> bool" where
  "float_less NaN _ = False"
| "float_less _ NaN = False"
| "float_less PosInf _ = False"
| "float_less _ NegInf = False"
| "float_less (Finite a) (Finite b) = (a < b)"
| "float_less _ _ = True"

definition number_of :: "pyval \<Rightarrow> pyfloat option" where
  "number_of v =
     (case v of PInt i \<Rightarrow> Some (Finite (of_int i)) | PFloat x \<Rightarrow> Some x | _ \<Rightarrow> None)"

definition py_le :: "pyval \<Rightarrow> pyval \<Rightarrow> bool" where
  "py_le a b =
     (case (number_of a, number_of b) of (Some x, Some y) \<Rightarrow> float_le x y | _ \<Rightarrow> False)"

definition py_gt :: "pyval \<Rightarrow> pyval \<Rightarrow> bool" where
  "py_gt a b =
     (case (number_of a, number_of b) of (Some x, Some y) \<Rightarrow> float_less y x | _ \<Rightarrow> False)"

definition texttile_config_types :: type_spec where
  "texttile_config_types =
     [(''cutoff_policy'', [TStr]),
      (''embedding_aggregation_pool_method'', [TStr]),
      (''max_clip_duration_secs'', [TFloat, TInt]),
      (''min_clip_duration_secs'', [TFloat, TInt]),
      (''smoothing_width'', [TInt]),
      (''window_compare_pool_method'', [TStr])]"

definition range_error :: "string" where
  "range_error = ''min_clip_duration_secs must not be greater than max_clip_duration_secs''"

definition smoothing_width_error :: "string" where
  "smoothing_width_error = ''smoothing_width must be a non-negative integer''"

definition enum_error :: "string \<Rightarrow> string \<Rightarrow> string" where
  "enum_error field received = field @ '' has a value that is not accepted: '' @ received"

text \<open>
  Modelled from the spec: \<^verbatim>\<open>TextTileClipFinderConfigManager.check_valid_config\<close>,
  whose module is not among the source files. Section 4.1: it validates presence and
  type of every field the subsystem requires (cutoff policy, pooling methods, minimum and
  maximum clip duration, smoothing width); it enforces the domain constraints, numeric
  ones first as the section lists them (minimum duration at most maximum duration,
  smoothing width a non-negative integer), then the enumerated-string fields, which must
  belong to a fixed accepted set; it returns the first violated constraint as a message
  and \<^verbatim>\<open>None\<close> only if every field passes. The specification names neither the
  accepted sets nor the wording of the messages: the sets are parameters, and the
  messages are fixed texts, one per kind of violation.
\<close>

definition spec_texttile_check_valid_config ::
  "string list \<Rightarrow> string list \<Rightarrow> pydict \<Rightarrow> string option" where
  "spec_texttile_check_valid_config cutoff_policies pool_methods config =
     (case spec_check_existence_and_types config texttile_config_types of
        Some error \<Rightarrow> Some error
      | None \<Rightarrow>
     (case (config ''min_clip_duration_secs'', config ''max_clip_duration_secs'',
            config ''smoothing_width'', config ''cutoff_policy'',
            config ''embedding_aggregation_pool_method'',
            config ''window_compare_pool_method'') of
        (Some lo, Some hi, Some (PInt width), Some (PStr policy), Some (PStr aggregation),
         Some (PStr compare)) \<Rightarrow>
          if \<not> py_le lo hi then Some range_error
          else if width < 0 then Some smoothing_width_error
          else if policy \<notin> set cutoff_policies then Some (enum_error ''cutoff_policy'' policy)
          else if aggregation \<notin> set pool_methods
            then Some (enum_error ''embedding_aggregation_pool_method'' aggregation)
          else if compare \<notin> set pool_methods
            then Some (enum_error ''window_compare_pool_method'' compare)
          else None
      | _ \<Rightarrow> Some ''invalid configuration''))"

text \<open>
  The collaborators with the two modelled checks in place. What the specification leaves
  open stays a parameter: the accepted cutoff policies and pooling methods, the device
  checker and the transcriber configuration check.
\<close>

definition spec_collaborators ::
  "string list \<Rightarrow> string list \<Rightarrow> (pyval \<Rightarrow> string option) \<Rightarrow> (pydict \<Rightarrow> string option)
     \<Rightarrow> collaborators" where
  "spec_collaborators cutoff_policies pool_methods device_check transcriber_check =
     \<lparr>check_input_data_existence_and_types = spec_check_existence_and_types,
      check_request_data_existence_and_types = spec_check_existence_and_types,
      check_valid_torch_device = device_check,
      clip_texttile_check_valid_config =
        spec_texttile_check_valid_config cutoff_policies pool_methods,
      ml_texttile_check_valid_config =
        spec_texttile_check_valid_config cutoff_policies pool_methods,
      whisperx_check_valid_config = transcriber_check\<rparr>"

text \<open>
  The scenario mapping of the specification (a valid input with a null compute device),
  and the same mapping with the transcription fields of a request.
\<close>

definition scenario_input :: pydict where
  "scenario_input =
     [''mediaFilePath'' \<mapsto> PStr ''a.mp3'', ''cutoffPolicy'' \<mapsto> PStr ''high'',
      ''embeddingAggregationPoolMethod'' \<mapsto> PStr ''max'', ''minClipTime'' \<mapsto> PInt 15,
      ''maxClipTime'' \<mapsto> PInt 900, ''smoothingWidth'' \<mapsto> PInt 3,
      ''windowComparePoolMethod'' \<mapsto> PStr ''mean'', ''computeDevice'' \<mapsto> PNone]"

definition scenario_request :: pydict where
  "scenario_request =
     scenario_input(''precision'' \<mapsto> PNone, ''languageCode'' \<mapsto> PStr ''en'',
                    ''whisperModelSize'' \<mapsto> PNone)"

definition scenario_collaborators :: collaborators where
  "scenario_collaborators =
     spec_collaborators [''high''] [''max'', ''mean''] (\<lambda>device. None) (\<lambda>config. None)"


text \<open>
  The valid input without the key computeDevice (the key is absent, not bound to None),
  and the corresponding request.
\<close>

definition input_without_compute_device :: pydict where
  "input_without_compute_device =
     [''mediaFilePath'' \<mapsto> PStr ''a.mp3'', ''cutoffPolicy'' \<mapsto> PStr ''high'',
      ''embeddingAggregationPoolMethod'' \<mapsto> PStr ''max'', ''minClipTime'' \<mapsto> PInt 15,
      ''maxClipTime'' \<mapsto> PInt 900, ''smoothingWidth'' \<mapsto> PInt 3,
      ''windowComparePoolMethod'' \<mapsto> PStr ''mean'']"

definition request_without_compute_device :: pydict where
  "request_without_compute_device =
     input_without_compute_device(''precision'' \<mapsto> PNone, ''languageCode'' \<mapsto> PStr ''en'',
                                   ''whisperModelSize'' \<mapsto> PNone)"

section \<open>Facts about the imputation loop\<close>

lemma impute_field_lookup:
  "impute_field (key, v) data k =
     (if k = key then (case data key of None \<Rightarrow> Some v | Some w \<Rightarrow> Some w) else data k)"
  by (simp add: impute_field_def split: option.split)

lemma impute_defaults_lookup:
  "impute_defaults tbl data k = (case data k of None \<Rightarrow> map_of tbl k | Some v \<Rightarrow> Some v)"
proof (induction tbl arbitrary: data)
  case Nil
  show ?case by (simp add: impute_defaults_def split: option.split)
next
  case (Cons item tbl)
  obtain key v where item: "item = (key, v)" by (cases item)
  have "impute_defaults (item # tbl) data k = impute_defaults tbl (impute_field item data) k"
    by (simp add: impute_defaults_def)
  also have "\<dots> = (case impute_field item data k of None \<Rightarrow> map_of tbl k | Some w \<Rightarrow> Some w)"
    by (rule Cons.IH)
  also have "\<dots> = (case data k of None \<Rightarrow> map_of (item # tbl) k | Some w \<Rightarrow> Some w)"
    by (simp add: item impute_field_lookup split: option.split)
  finally show ?case .
qed

lemma impute_defaults_map_add: "impute_defaults tbl data = map_of tbl ++ data"
  by (rule ext) (simp add: impute_defaults_lookup map_add_def)

section \<open>Facts about the validators\<close>

lemma endswith_iff_suffix: "endswith s suf = suffix suf s"
proof
  assume "endswith s suf"
  then have "s = take (length s - length suf) s @ suf"
    unfolding endswith_def by (metis append_take_drop_id)
  then show "suffix suf s" by (rule suffixI)
next
  assume "suffix suf s"
  then obtain zs where "s = zs @ suf" by (auto elim: suffixE)
  then show "endswith s suf" by (simp add: endswith_def)
qed

lemma check_valid_input_data_steps:
  "fst (check_valid_input_data env d) =
     first_failure [input_existence_step env d, extension_step d, device_step env d,
                    clip_finder_step (clip_texttile_check_valid_config env) d]"
  by (simp add: check_valid_input_data_def input_existence_step_def extension_step_def
      device_step_def clip_finder_step_def getitem_def and_then_def
      split: option.split pyval.split result.split)

lemma check_valid_request_data_steps:
  "fst (check_valid_request_data env d) =
     first_failure [request_existence_step env d, extension_step d, device_step env d,
                    transcriber_step env d,
                    clip_finder_step (ml_texttile_check_valid_config env) d]"
  by (simp add: check_valid_request_data_def request_existence_step_def extension_step_def
      device_step_def clip_finder_step_def transcriber_step_def getitem_def and_then_def
      split: option.split pyval.split result.split)

lemma first_failure_None_iff: "(first_failure steps = Returns None) = passes steps"
  by (induction steps rule: first_failure.induct) (simp_all add: passes_def)

lemma first_failure_single: "first_failure [r] = r"
proof (cases r)
  case (Returns x)
  then show ?thesis by (cases x) simp_all
next
  case (Raises e)
  then show ?thesis by simp
qed

lemma texttile_config_of_Returns:
  "(texttile_config_of d = Returns c) =
     (\<exists>v1 v2 v3 v4 v5 v6.
        d ''cutoffPolicy'' = Some v1 \<and> d ''embeddingAggregationPoolMethod'' = Some v2 \<and>
        d ''maxClipTime'' = Some v3 \<and> d ''minClipTime'' = Some v4 \<and>
        d ''smoothingWidth'' = Some v5 \<and> d ''windowComparePoolMethod'' = Some v6 \<and>
        c = [''cutoff_policy'' \<mapsto> v1, ''embedding_aggregation_pool_method'' \<mapsto> v2,
             ''max_clip_duration_secs'' \<mapsto> v3, ''min_clip_duration_secs'' \<mapsto> v4,
             ''smoothing_width'' \<mapsto> v5, ''window_compare_pool_method'' \<mapsto> v6])"
  by (auto simp: texttile_config_of_def getitem_def and_then_def split: option.split)

lemma whisperx_config_of_Returns:
  "(whisperx_config_of d = Returns w) =
     (\<exists>v1 v2 v3.
        d ''languageCode'' = Some v1 \<and> d ''whisperModelSize'' = Some v2 \<and>
        d ''precision'' = Some v3 \<and>
        w = [''language'' \<mapsto> v1, ''model_size'' \<mapsto> v2, ''precision'' \<mapsto> v3])"
  by (auto simp: whisperx_config_of_def getitem_def and_then_def split: option.split)

lemma first_failure_Returns:
  "list_all (\<lambda>r. \<exists>m. r = Returns m) steps \<Longrightarrow> \<exists>m. first_failure steps = Returns m"
  by (induction steps rule: first_failure.induct) auto

lemma validators_return_when_fields_present:
  assumes "d ''mediaFilePath'' = Some (PStr p)" and "d ''computeDevice'' = Some device"
    and "{''cutoffPolicy'', ''embeddingAggregationPoolMethod'', ''maxClipTime'',
          ''minClipTime'', ''smoothingWidth'', ''windowComparePoolMethod''} \<subseteq> dom d"
  shows "\<exists>m. fst (check_valid_input_data env d) = Returns m"
    and "{''languageCode'', ''whisperModelSize'', ''precision''} \<subseteq> dom d \<Longrightarrow>
           \<exists>m. fst (check_valid_request_data env d) = Returns m"
proof -
  from assms(3) obtain c where c: "texttile_config_of d = Returns c"
    by (auto simp: texttile_config_of_Returns)
  have dev: "\<exists>m. device_step env d = Returns m"
    using assms(2) by (cases device) (simp_all add: device_step_def)
  have ext: "\<exists>m. extension_step d = Returns m"
    using assms(1) by (simp add: extension_step_def)
  show "\<exists>m. fst (check_valid_input_data env d) = Returns m"
    unfolding check_valid_input_data_steps
    by (rule first_failure_Returns)
       (simp add: dev ext input_existence_step_def clip_finder_step_def c and_then_def)
  assume "{''languageCode'', ''whisperModelSize'', ''precision''} \<subseteq> dom d"
  then obtain w where w: "whisperx_config_of d = Returns w"
    by (auto simp: whisperx_config_of_Returns)
  show "\<exists>m. fst (check_valid_request_data env d) = Returns m"
    unfolding check_valid_request_data_steps
    by (rule first_failure_Returns)
       (simp add: dev ext request_existence_step_def clip_finder_step_def transcriber_step_def
          c w and_then_def)
qed

section \<open>Facts about the modelled collaborators\<close>

lemma type_of_cases:
  "(type_of v = TStr) = (\<exists>s. v = PStr s)"
  "(type_of v = TInt) = (\<exists>n. v = PInt n)"
  "(type_of v = TFloat) = (\<exists>x. v = PFloat x)"
  "(type_of v = TNoneType) = (v = PNone)"
  by (cases v; simp add: type_of_def)+

lemma spec_check_passed_field:
  "spec_check_existence_and_types d ts = None \<Longrightarrow> (k, T) \<in> set ts \<Longrightarrow>
     \<exists>v. d k = Some v \<and> type_of v \<in> set T"
  by (induction d ts rule: spec_check_existence_and_types.induct)
     (auto split: option.splits if_splits)

lemma spec_check_passed_fields:
  assumes "spec_check_existence_and_types d ts = None"
    and "set [(''mediaFilePath'', [TStr]), (''computeDevice'', [TStr, TNoneType])] \<subseteq> set ts"
  shows "\<exists>p device. d ''mediaFilePath'' = Some (PStr p) \<and> d ''computeDevice'' = Some device"
proof -
  have "\<exists>v. d ''mediaFilePath'' = Some v \<and> type_of v \<in> set [TStr]"
    using assms(2) by (intro spec_check_passed_field [OF assms(1)]) auto
  moreover have "\<exists>v. d ''computeDevice'' = Some v \<and> type_of v \<in> set [TStr, TNoneType]"
    using assms(2) by (intro spec_check_passed_field [OF assms(1)]) auto
  ultimately show ?thesis by (auto simp: type_of_cases)
qed

lemma spec_check_passed_transcription_fields:
  assumes "spec_check_existence_and_types d request_correct_types = None"
  shows "{''languageCode'', ''whisperModelSize'', ''precision''} \<subseteq> dom d"
proof -
  have "\<exists>v. d ''languageCode'' = Some v \<and> type_of v \<in> set [TStr]"
    by (intro spec_check_passed_field [OF assms]) (simp add: request_correct_types_def)
  moreover have "\<exists>v. d ''whisperModelSize'' = Some v \<and> type_of v \<in> set [TStr, TNoneType]"
    by (intro spec_check_passed_field [OF assms]) (simp add: request_correct_types_def)
  moreover have "\<exists>v. d ''precision'' = Some v \<and> type_of v \<in> set [TStr, TNoneType]"
    by (intro spec_check_passed_field [OF assms]) (simp add: request_correct_types_def)
  ultimately show ?thesis by auto
qed

lemma float_less_not_le: "float_less y x \<Longrightarrow> \<not> float_le x y"
  by (cases x; cases y) auto

lemma py_gt_not_le: "py_gt a b \<Longrightarrow> \<not> py_le a b"
  by (auto simp: py_gt_def py_le_def float_less_not_le split: option.splits)

lemma clip_fields_typed:
  assumes "spec_check_existence_and_types d ts = None"
    and "set [(''cutoffPolicy'', [TStr]), (''embeddingAggregationPoolMethod'', [TStr]),
              (''minClipTime'', [TFloat, TInt]), (''maxClipTime'', [TFloat, TInt]),
              (''smoothingWidth'', [TInt]), (''windowComparePoolMethod'', [TStr])] \<subseteq> set ts"
  shows "\<exists>policy aggregation lo hi width compare.
           d ''cutoffPolicy'' = Some (PStr policy) \<and>
           d ''embeddingAggregationPoolMethod'' = Some (PStr aggregation) \<and>
           d ''minClipTime'' = Some lo \<and> type_of lo \<in> {TFloat, TInt} \<and>
           d ''maxClipTime'' = Some hi \<and> type_of hi \<in> {TFloat, TInt} \<and>
           d ''smoothingWidth'' = Some (PInt width) \<and>
           d ''windowComparePoolMethod'' = Some (PStr compare)"
proof -
  have f: "\<And>k T. (k, T) \<in> set ts \<Longrightarrow> \<exists>v. d k = Some v \<and> type_of v \<in> set T"
    by (rule spec_check_passed_field [OF assms(1)])
  have "\<exists>v. d ''cutoffPolicy'' = Some v \<and> type_of v \<in> set [TStr]"
    using assms(2) by (intro f) auto
  moreover have "\<exists>v. d ''embeddingAggregationPoolMethod'' = Some v \<and> type_of v \<in> set [TStr]"
    using assms(2) by (intro f) auto
  moreover have "\<exists>v. d ''minClipTime'' = Some v \<and> type_of v \<in> set [TFloat, TInt]"
    using assms(2) by (intro f) auto
  moreover have "\<exists>v. d ''maxClipTime'' = Some v \<and> type_of v \<in> set [TFloat, TInt]"
    using assms(2) by (intro f) auto
  moreover have "\<exists>v. d ''smoothingWidth'' = Some v \<and> type_of v \<in> set [TInt]"
    using assms(2) by (intro f) auto
  moreover have "\<exists>v. d ''windowComparePoolMethod'' = Some v \<and> type_of v \<in> set [TStr]"
    using assms(2) by (intro f) auto
  ultimately show ?thesis by (auto simp: type_of_cases)
qed

lemma spec_texttile_rejects_min_above_max:
  assumes "d ''cutoffPolicy'' = Some (PStr policy)"
    and "d ''embeddingAggregationPoolMethod'' = Some (PStr aggregation)"
    and "d ''minClipTime'' = Some lo" and "type_of lo \<in> {TFloat, TInt}"
    and "d ''maxClipTime'' = Some hi" and "type_of hi \<in> {TFloat, TInt}"
    and "d ''smoothingWidth'' = Some (PInt width)"
    and "d ''windowComparePoolMethod'' = Some (PStr compare)"
    and "py_gt lo hi"
  shows "clip_finder_step (spec_texttile_check_valid_config cutoff_policies pool_methods) d
           = Returns (Some range_error)"
proof -
  let ?c = "[''cutoff_policy'' \<mapsto> PStr policy,
             ''embedding_aggregation_pool_method'' \<mapsto> PStr aggregation,
             ''max_clip_duration_secs'' \<mapsto> hi, ''min_clip_duration_secs'' \<mapsto> lo,
             ''smoothing_width'' \<mapsto> PInt width,
             ''window_compare_pool_method'' \<mapsto> PStr compare]"
  have c: "texttile_config_of d = Returns ?c"
    using assms(1,2,3,5,7,8) by (simp add: texttile_config_of_Returns)
  have t: "spec_check_existence_and_types ?c texttile_config_types = None"
    using assms(4,6) by (auto simp: texttile_config_types_def type_of_def)
  have "\<not> py_le lo hi" using assms(9) by (rule py_gt_not_le)
  then have "spec_texttile_check_valid_config cutoff_policies pool_methods ?c = Some range_error"
    by (simp add: spec_texttile_check_valid_config_def t)
  then show ?thesis by (simp add: clip_finder_step_def c and_then_def)
qed

section \<open>Claims about default imputation\<close>

lemmas scenario_defs =
  scenario_input_def scenario_request_def scenario_collaborators_def spec_collaborators_def
  input_without_compute_device_def request_without_compute_device_def

lemmas step_defs = input_existence_step_def request_existence_step_def extension_step_def
  device_step_def transcriber_step_def clip_finder_step_def

lemmas eval_defs = input_correct_types_def request_correct_types_def getitem_def
  type_of_def endswith_def texttile_config_of_def whisperx_config_of_def and_then_def
  spec_texttile_check_valid_config_def texttile_config_types_def py_le_def number_of_def

text \<open>
  Claim C4. For a mapping that has none of the optional keys,
  \<^verbatim>\<open>impute_input_data_defaults\<close> returns the mapping with exactly seven bindings
  added: computeDevice to None, cutoffPolicy to "high", embeddingAggregationPoolMethod to
  "max", minClipTime to 15, maxClipTime to 900, smoothingWidth to 3 and
  windowComparePoolMethod to "mean"; \<^verbatim>\<open>impute_request_data_defaults\<close> adds those
  and precision to None, languageCode to "en" and whisperModelSize to None. On the
  mapping that holds only mediaFilePath "a.mp4" the request variant yields languageCode
  "en", minClipTime 15, maxClipTime 900 and a computeDevice that is None.
\<close>

theorem impute_inserts_the_defaults:
  "(dom d \<inter> fst ` set input_optional_fields_default_values = {} \<longrightarrow>
      impute_input_data_defaults d =
        d(''computeDevice'' \<mapsto> PNone, ''cutoffPolicy'' \<mapsto> PStr ''high'',
          ''embeddingAggregationPoolMethod'' \<mapsto> PStr ''max'', ''minClipTime'' \<mapsto> PInt 15,
          ''maxClipTime'' \<mapsto> PInt 900, ''smoothingWidth'' \<mapsto> PInt 3,
          ''windowComparePoolMethod'' \<mapsto> PStr ''mean''))
   \<and> (dom d \<inter> fst ` set request_optional_fields_default_values = {} \<longrightarrow>
      impute_request_data_defaults d =
        d(''computeDevice'' \<mapsto> PNone, ''cutoffPolicy'' \<mapsto> PStr ''high'',
          ''embeddingAggregationPoolMethod'' \<mapsto> PStr ''max'', ''minClipTime'' \<mapsto> PInt 15,
          ''maxClipTime'' \<mapsto> PInt 900, ''smoothingWidth'' \<mapsto> PInt 3,
          ''windowComparePoolMethod'' \<mapsto> PStr ''mean'',
          ''precision'' \<mapsto> PNone, ''languageCode'' \<mapsto> PStr ''en'',
          ''whisperModelSize'' \<mapsto> PNone))
   \<and> impute_request_data_defaults [''mediaFilePath'' \<mapsto> PStr ''a.mp4''] ''languageCode''
         = Some (PStr ''en'')
   \<and> impute_request_data_defaults [''mediaFilePath'' \<mapsto> PStr ''a.mp4''] ''minClipTime''
         = Some (PInt 15)
   \<and> impute_request_data_defaults [''mediaFilePath'' \<mapsto> PStr ''a.mp4''] ''maxClipTime''
         = Some (PInt 900)
   \<and> impute_request_data_defaults [''mediaFilePath'' \<mapsto> PStr ''a.mp4''] ''computeDevice''
         = Some PNone"
proof (intro conjI impI)
  assume a: "dom d \<inter> fst ` set input_optional_fields_default_values = {}"
  show "impute_input_data_defaults d =
        d(''computeDevice'' \<mapsto> PNone, ''cutoffPolicy'' \<mapsto> PStr ''high'',
          ''embeddingAggregationPoolMethod'' \<mapsto> PStr ''max'', ''minClipTime'' \<mapsto> PInt 15,
          ''maxClipTime'' \<mapsto> PInt 900, ''smoothingWidth'' \<mapsto> PInt 3,
          ''windowComparePoolMethod'' \<mapsto> PStr ''mean'')"
  proof (rule ext)
    fix k
    from a have "\<And>key. key \<in> fst ` set input_optional_fields_default_values \<Longrightarrow> d key = None"
      by blast
    then show "impute_input_data_defaults d k =
        (d(''computeDevice'' \<mapsto> PNone, ''cutoffPolicy'' \<mapsto> PStr ''high'',
          ''embeddingAggregationPoolMethod'' \<mapsto> PStr ''max'', ''minClipTime'' \<mapsto> PInt 15,
          ''maxClipTime'' \<mapsto> PInt 900, ''smoothingWidth'' \<mapsto> PInt 3,
          ''windowComparePoolMethod'' \<mapsto> PStr ''mean'')) k"
      by (simp add: impute_input_data_defaults_def impute_defaults_lookup
          input_optional_fields_default_values_def split: option.split)
  qed
next
  assume a: "dom d \<inter> fst ` set request_optional_fields_default_values = {}"
  show "impute_request_data_defaults d =
        d(''computeDevice'' \<mapsto> PNone, ''cutoffPolicy'' \<mapsto> PStr ''high'',
          ''embeddingAggregationPoolMethod'' \<mapsto> PStr ''max'', ''minClipTime'' \<mapsto> PInt 15,
          ''maxClipTime'' \<mapsto> PInt 900, ''smoothingWidth'' \<mapsto> PInt 3,
          ''windowComparePoolMethod'' \<mapsto> PStr ''mean'',
          ''precision'' \<mapsto> PNone, ''languageCode'' \<mapsto> PStr ''en'',
          ''whisperModelSize'' \<mapsto> PNone)"
  proof (rule ext)
    fix k
    from a have "\<And>key. key \<in> fst ` set request_optional_fields_default_values \<Longrightarrow> d key = None"
      by blast
    then show "impute_request_data_defaults d k =
        (d(''computeDevice'' \<mapsto> PNone, ''cutoffPolicy'' \<mapsto> PStr ''high'',
          ''embeddingAggregationPoolMethod'' \<mapsto> PStr ''max'', ''minClipTime'' \<mapsto> PInt 15,
          ''maxClipTime'' \<mapsto> PInt 900, ''smoothingWidth'' \<mapsto> PInt 3,
          ''windowComparePoolMethod'' \<mapsto> PStr ''mean'',
          ''precision'' \<mapsto> PNone, ''languageCode'' \<mapsto> PStr ''en'',
          ''whisperModelSize'' \<mapsto> PNone)) k"
      by (simp add: impute_request_data_defaults_def impute_defaults_lookup
          request_optional_fields_default_values_def split: option.split)
  qed
qed (simp_all add: impute_request_data_defaults_def impute_defaults_lookup
       request_optional_fields_default_values_def)

theorem impute_inserts_the_defaults_witness:
  "dom [''mediaFilePath'' \<mapsto> PStr ''a.mp4''] \<inter> fst ` set request_optional_fields_default_values = {}
   \<and> impute_request_data_defaults [''mediaFilePath'' \<mapsto> PStr ''a.mp4''] =
        [''mediaFilePath'' \<mapsto> PStr ''a.mp4'',
          ''computeDevice'' \<mapsto> PNone, ''cutoffPolicy'' \<mapsto> PStr ''high'',
          ''embeddingAggregationPoolMethod'' \<mapsto> PStr ''max'', ''minClipTime'' \<mapsto> PInt 15,
          ''maxClipTime'' \<mapsto> PInt 900, ''smoothingWidth'' \<mapsto> PInt 3,
          ''windowComparePoolMethod'' \<mapsto> PStr ''mean'',
          ''precision'' \<mapsto> PNone, ''languageCode'' \<mapsto> PStr ''en'',
          ''whisperModelSize'' \<mapsto> PNone]
   \<and> dom [''mediaFilePath'' \<mapsto> PStr ''a.mp4''] \<inter> fst ` set input_optional_fields_default_values = {}
   \<and> impute_input_data_defaults [''mediaFilePath'' \<mapsto> PStr ''a.mp4''] ''smoothingWidth'' = Some (PInt 3)"
proof -
  have h: "dom [''mediaFilePath'' \<mapsto> PStr ''a.mp4''] \<inter> fst ` set request_optional_fields_default_values = {}"
    by (simp add: request_optional_fields_default_values_def)
  have h': "dom [''mediaFilePath'' \<mapsto> PStr ''a.mp4''] \<inter> fst ` set input_optional_fields_default_values = {}"
    by (simp add: input_optional_fields_default_values_def)
  from h h' impute_inserts_the_defaults [of "[''mediaFilePath'' \<mapsto> PStr ''a.mp4'']"]
  show ?thesis by simp
qed

text \<open>
  Claim C5. Both imputation functions are idempotent: a second application returns the
  mapping the first one returned. A key the mapping already holds keeps its value, whatever
  the value is (None included).
\<close>

theorem impute_is_idempotent:
  "impute_input_data_defaults (impute_input_data_defaults d) = impute_input_data_defaults d
   \<and> impute_request_data_defaults (impute_request_data_defaults d)
       = impute_request_data_defaults d
   \<and> (d k = Some v \<longrightarrow> impute_input_data_defaults d k = Some v)
   \<and> (d k = Some v \<longrightarrow> impute_request_data_defaults d k = Some v)"
  by (auto simp: impute_input_data_defaults_def impute_request_data_defaults_def
      impute_defaults_lookup fun_eq_iff split: option.split)

theorem impute_is_idempotent_witness:
  "impute_input_data_defaults (impute_input_data_defaults [''computeDevice'' \<mapsto> PNone, ''minClipTime'' \<mapsto> PInt 20])
     = impute_input_data_defaults [''computeDevice'' \<mapsto> PNone, ''minClipTime'' \<mapsto> PInt 20]
   \<and> impute_input_data_defaults [''computeDevice'' \<mapsto> PNone, ''minClipTime'' \<mapsto> PInt 20] ''minClipTime'' = Some (PInt 20)
   \<and> impute_request_data_defaults [''computeDevice'' \<mapsto> PNone, ''minClipTime'' \<mapsto> PInt 20] ''minClipTime'' = Some (PInt 20)"
  using impute_is_idempotent [of "[''computeDevice'' \<mapsto> PNone, ''minClipTime'' \<mapsto> PInt 20]" "''minClipTime''" "PInt 20"]
  by simp

text \<open>
  Claim C9. Imputation touches only the keys of its default table: at every key outside
  the table the mapping after imputation holds what it held before (a value or nothing).
  In particular a mapping without mediaFilePath is still without it afterwards.
\<close>

theorem impute_touches_only_its_table:
  "(k \<notin> fst ` set input_optional_fields_default_values \<longrightarrow>
      impute_input_data_defaults d k = d k)
   \<and> (k \<notin> fst ` set request_optional_fields_default_values \<longrightarrow>
      impute_request_data_defaults d k = d k)
   \<and> (d ''mediaFilePath'' = None \<longrightarrow>
        impute_input_data_defaults d ''mediaFilePath'' = None
        \<and> impute_request_data_defaults d ''mediaFilePath'' = None)"
  by (auto simp: impute_input_data_defaults_def impute_request_data_defaults_def
      impute_defaults_lookup map_of_eq_None_iff input_optional_fields_default_values_def
      request_optional_fields_default_values_def split: option.split)

theorem impute_touches_only_its_table_witness:
  "impute_input_data_defaults [''note'' \<mapsto> PStr ''x''] ''note'' = Some (PStr ''x'')
   \<and> impute_request_data_defaults [''note'' \<mapsto> PStr ''x''] ''note'' = Some (PStr ''x'')
   \<and> impute_input_data_defaults [''note'' \<mapsto> PStr ''x''] ''mediaFilePath'' = None
   \<and> impute_request_data_defaults [''note'' \<mapsto> PStr ''x''] ''mediaFilePath'' = None"
  using impute_touches_only_its_table [of "''note''" "[''note'' \<mapsto> PStr ''x'']"]
  by (simp add: input_optional_fields_default_values_def request_optional_fields_default_values_def)

section \<open>Claims about validation\<close>

text \<open>
  Claim C8. Validation leaves the caller's mapping as it was: whatever the outcome of
  \<^verbatim>\<open>check_valid_input_data\<close> or \<^verbatim>\<open>check_valid_request_data\<close> (a message,
  None or an exception), the mapping after the call is the mapping before it. The
  imputation functions are the ones that change a mapping: on the empty mapping each of
  them returns a mapping that is not empty.
\<close>

theorem validation_leaves_the_mapping_unchanged:
  "snd (check_valid_input_data env d) = d \<and> snd (check_valid_request_data env d) = d
   \<and> impute_input_data_defaults Map.empty \<noteq> Map.empty
   \<and> impute_request_data_defaults Map.empty \<noteq> Map.empty"
proof -
  have "impute_input_data_defaults Map.empty ''computeDevice'' = Some PNone"
    and "impute_request_data_defaults Map.empty ''computeDevice'' = Some PNone"
    by (simp_all add: impute_input_data_defaults_def impute_request_data_defaults_def
        impute_defaults_lookup input_optional_fields_default_values_def
        request_optional_fields_default_values_def)
  then have "impute_input_data_defaults Map.empty \<noteq> Map.empty"
    and "impute_request_data_defaults Map.empty \<noteq> Map.empty"
    by (metis option.distinct(1))+
  moreover have "snd (check_valid_input_data env d) = d"
    and "snd (check_valid_request_data env d) = d"
    by (simp_all add: check_valid_input_data_def check_valid_request_data_def
        split: option.split pyval.split result.split)
  ultimately show ?thesis by simp
qed

theorem validation_leaves_the_mapping_unchanged_witness:
  "snd (check_valid_input_data scenario_collaborators scenario_input) = scenario_input
   \<and> snd (check_valid_request_data scenario_collaborators scenario_request) = scenario_request"
  using validation_leaves_the_mapping_unchanged [of scenario_collaborators scenario_input]
    validation_leaves_the_mapping_unchanged [of scenario_collaborators scenario_request]
  by simp

text \<open>
  Claim C1. Both validators run their checks in one fixed order and stop at the first
  that does not pass: the result of \<^verbatim>\<open>check_valid_input_data\<close> is the first
  failure among the existence-and-type check over the whole type specification, the
  extension check, the device check (which calls the device checker only when
  computeDevice is not None) and the clip-finder configuration check;
  \<^verbatim>\<open>check_valid_request_data\<close> runs the transcriber configuration check between
  the device check and the clip-finder check. A check after the first failure is not run
  (it contributes nothing, not even the exception it would raise), and the result is
  None exactly when every check passes.
\<close>

theorem checks_run_in_fixed_order:
  "fst (check_valid_input_data env d) =
     first_failure [input_existence_step env d, extension_step d, device_step env d,
                    clip_finder_step (clip_texttile_check_valid_config env) d]
   \<and> fst (check_valid_request_data env d) =
     first_failure [request_existence_step env d, extension_step d, device_step env d,
                    transcriber_step env d,
                    clip_finder_step (ml_texttile_check_valid_config env) d]
   \<and> (fst (check_valid_input_data env d) = Returns None) =
       passes [input_existence_step env d, extension_step d, device_step env d,
               clip_finder_step (clip_texttile_check_valid_config env) d]
   \<and> (fst (check_valid_request_data env d) = Returns None) =
       passes [request_existence_step env d, extension_step d, device_step env d,
               transcriber_step env d,
               clip_finder_step (ml_texttile_check_valid_config env) d]"
  by (simp only: check_valid_input_data_steps check_valid_request_data_steps
      first_failure_None_iff simp_thms)

text \<open>
  The scenario input with the extension wav and a minimum clip time above the maximum:
  the extension error is the result, the clip-finder check is never reached. The scenario
  request passes every check.
\<close>

theorem checks_run_in_fixed_order_witness:
  "fst (check_valid_input_data scenario_collaborators
          (scenario_input(''mediaFilePath'' \<mapsto> PStr ''a.wav'', ''minClipTime'' \<mapsto> PInt 2000)))
     = Returns (Some (extension_error ''a.wav''))
   \<and> fst (check_valid_request_data scenario_collaborators scenario_request) = Returns None"
  using checks_run_in_fixed_order [of scenario_collaborators
          "scenario_input(''mediaFilePath'' \<mapsto> PStr ''a.wav'', ''minClipTime'' \<mapsto> PInt 2000)"]
    checks_run_in_fixed_order [of scenario_collaborators scenario_request]
  by (simp add: step_defs scenario_defs eval_defs passes_def)

text \<open>
  Claim C2. Take the existence-and-type check as the specification describes it. For
  every parameter mapping, also one from which computeDevice or another nullable field is
  absent, both validators return None or an error message and raise nothing: a mapping
  that lacks a key of the type specification is answered by the first check, and after
  that check every subscript of the validators is on a key the check has found and
  \<^verbatim>\<open>.endswith\<close> is called on a value the check has found to be a string. This holds
  for every accepted set, device checker and transcriber check.
\<close>

theorem validators_never_raise:
  "(\<exists>m. fst (check_valid_input_data
            (spec_collaborators cutoff_policies pool_methods device_check transcriber_check)
            d) = Returns m)
   \<and> (\<exists>m. fst (check_valid_request_data
            (spec_collaborators cutoff_policies pool_methods device_check transcriber_check)
            d) = Returns m)"
proof
  let ?env = "spec_collaborators cutoff_policies pool_methods device_check transcriber_check"
  show "\<exists>m. fst (check_valid_input_data ?env d) = Returns m"
  proof (cases "spec_check_existence_and_types d input_correct_types")
    case (Some error)
    then show ?thesis
      by (simp add: check_valid_input_data_def spec_collaborators_def)
  next
    case None
    from spec_check_passed_fields [OF None] obtain p device where
      "d ''mediaFilePath'' = Some (PStr p)" "d ''computeDevice'' = Some device"
      by (auto simp: input_correct_types_def)
    moreover from clip_fields_typed [OF None]
    have "{''cutoffPolicy'', ''embeddingAggregationPoolMethod'', ''maxClipTime'',
           ''minClipTime'', ''smoothingWidth'', ''windowComparePoolMethod''} \<subseteq> dom d"
      by (auto simp: input_correct_types_def)
    ultimately show ?thesis by (rule validators_return_when_fields_present(1))
  qed
  show "\<exists>m. fst (check_valid_request_data ?env d) = Returns m"
  proof (cases "spec_check_existence_and_types d request_correct_types")
    case (Some error)
    then show ?thesis
      by (simp add: check_valid_request_data_def spec_collaborators_def)
  next
    case None
    from spec_check_passed_fields [OF None] obtain p device where
      "d ''mediaFilePath'' = Some (PStr p)" "d ''computeDevice'' = Some device"
      by (auto simp: request_correct_types_def)
    moreover from clip_fields_typed [OF None]
    have "{''cutoffPolicy'', ''embeddingAggregationPoolMethod'', ''maxClipTime'',
           ''minClipTime'', ''smoothingWidth'', ''windowComparePoolMethod''} \<subseteq> dom d"
      by (auto simp: request_correct_types_def)
    moreover note spec_check_passed_transcription_fields [OF None]
    ultimately show ?thesis by (rule validators_return_when_fields_present(2))
  qed
qed

text \<open>
  The valid input and the valid request without the key computeDevice: the first check
  answers with its message for the missing field.
\<close>

theorem validators_never_raise_witness:
  "fst (check_valid_input_data scenario_collaborators input_without_compute_device)
     = Returns (Some ''missing field computeDevice'')
   \<and> fst (check_valid_request_data scenario_collaborators request_without_compute_device)
     = Returns (Some ''missing field computeDevice'')"
  using validators_never_raise [of "[''high'']" "[''max'', ''mean'']" "\<lambda>device. None"
      "\<lambda>config. None" input_without_compute_device]
    validators_never_raise [of "[''high'']" "[''max'', ''mean'']" "\<lambda>device. None"
      "\<lambda>config. None" request_without_compute_device]
  by (simp add: check_valid_input_data_def check_valid_request_data_def scenario_defs
      eval_defs)

text \<open>
  Claim C3. Let the mediaFilePath of the mapping be the string \<open>p\<close> and let the
  existence-and-type check pass. If \<open>p\<close> ends with neither ".mp3" nor ".mp4" (an exact
  suffix, compared character by character), the validator returns the message
  "mediaFilePath must be of type mp3 or mp4. Received: " followed by \<open>p\<close>. If \<open>p\<close> ends
  with one of the two, the extension check yields no error and the result is that of the
  later checks alone.
\<close>

theorem extension_check:
  assumes "d ''mediaFilePath'' = Some (PStr p)"
  shows
  "(check_input_data_existence_and_types env d input_correct_types = None \<longrightarrow>
      fst (check_valid_input_data env d) =
        (if suffix ''.mp3'' p \<or> suffix ''.mp4'' p
         then first_failure [device_step env d,
                             clip_finder_step (clip_texttile_check_valid_config env) d]
         else Returns (Some (extension_error p))))
   \<and> (check_request_data_existence_and_types env d request_correct_types = None \<longrightarrow>
      fst (check_valid_request_data env d) =
        (if suffix ''.mp3'' p \<or> suffix ''.mp4'' p
         then first_failure [device_step env d, transcriber_step env d,
                             clip_finder_step (ml_texttile_check_valid_config env) d]
         else Returns (Some (extension_error p))))
   \<and> extension_step d =
        Returns (if suffix ''.mp3'' p \<or> suffix ''.mp4'' p then None
                 else Some (extension_error p))
   \<and> extension_error p = ''mediaFilePath must be of type mp3 or mp4. Received: '' @ p"
  using assms
  by (simp add: check_valid_input_data_steps check_valid_request_data_steps
      input_existence_step_def request_existence_step_def extension_step_def
      endswith_iff_suffix extension_error_def)

theorem extension_check_witness:
  "scenario_input ''mediaFilePath'' = Some (PStr ''a.mp3'')
   \<and> check_input_data_existence_and_types scenario_collaborators scenario_input input_correct_types = None
   \<and> fst (check_valid_input_data scenario_collaborators scenario_input) = Returns None
   \<and> (scenario_request(''mediaFilePath'' \<mapsto> PStr ''a.MP4'')) ''mediaFilePath'' = Some (PStr ''a.MP4'')
   \<and> check_request_data_existence_and_types scenario_collaborators
        (scenario_request(''mediaFilePath'' \<mapsto> PStr ''a.MP4'')) request_correct_types = None
   \<and> fst (check_valid_request_data scenario_collaborators
        (scenario_request(''mediaFilePath'' \<mapsto> PStr ''a.MP4'')))
       = Returns (Some ''mediaFilePath must be of type mp3 or mp4. Received: a.MP4'')"
proof -
  have a: "scenario_input ''mediaFilePath'' = Some (PStr ''a.mp3'')"
    by (simp add: scenario_defs)
  have b: "check_input_data_existence_and_types scenario_collaborators scenario_input input_correct_types = None"
    by (simp add: scenario_defs eval_defs)
  have c: "(scenario_request(''mediaFilePath'' \<mapsto> PStr ''a.MP4'')) ''mediaFilePath'' = Some (PStr ''a.MP4'')"
    by simp
  have e: "check_request_data_existence_and_types scenario_collaborators
        (scenario_request(''mediaFilePath'' \<mapsto> PStr ''a.MP4'')) request_correct_types = None"
    by (simp add: scenario_defs eval_defs)
  have f: "first_failure [device_step scenario_collaborators scenario_input,
      clip_finder_step (clip_texttile_check_valid_config scenario_collaborators) scenario_input]
      = Returns None"
    by (simp add: step_defs scenario_defs eval_defs)
  have g: "\<not> (suffix ''.mp3'' ''a.MP4'' \<or> suffix ''.mp4'' ''a.MP4'')"
    by (simp add: endswith_iff_suffix [symmetric] endswith_def)
  have h: "suffix ''.mp3'' ''a.mp3''"
    by (simp add: endswith_iff_suffix [symmetric] endswith_def)
  from extension_check [of scenario_input "''a.mp3''" scenario_collaborators] a b f h
  have "fst (check_valid_input_data scenario_collaborators scenario_input) = Returns None"
    by simp
  moreover from extension_check [of "scenario_request(''mediaFilePath'' \<mapsto> PStr ''a.MP4'')" "''a.MP4''"
      scenario_collaborators] c e g
  have "fst (check_valid_request_data scenario_collaborators
        (scenario_request(''mediaFilePath'' \<mapsto> PStr ''a.MP4'')))
       = Returns (Some ''mediaFilePath must be of type mp3 or mp4. Received: a.MP4'')"
    by simp
  ultimately show ?thesis using a b c e by simp
qed

text \<open>
  Claim C6. Whenever the dictionary literal for the text-tiling configuration is built
  (which happens exactly when the six outer clip fields are present, as a passed
  existence check of these required fields guarantees), the mapping has exactly the keys
  cutoff_policy, embedding_aggregation_pool_method, max_clip_duration_secs,
  min_clip_duration_secs, smoothing_width and window_compare_pool_method, bound to the
  values of cutoffPolicy, embeddingAggregationPoolMethod, maxClipTime, minClipTime,
  smoothingWidth and windowComparePoolMethod. The transcriber configuration of the request
  validator has exactly the keys language, model_size and precision, bound to
  languageCode, whisperModelSize and precision. Once the first three checks have passed,
  the validators apply the configuration managers to these mappings and to nothing else.
\<close>

theorem sub_configurations:
  "(texttile_config_of d = Returns c \<longrightarrow>
      dom c = {''cutoff_policy'', ''embedding_aggregation_pool_method'',
               ''max_clip_duration_secs'', ''min_clip_duration_secs'', ''smoothing_width'',
               ''window_compare_pool_method''}
      \<and> c ''cutoff_policy'' = d ''cutoffPolicy''
      \<and> c ''embedding_aggregation_pool_method'' = d ''embeddingAggregationPoolMethod''
      \<and> c ''max_clip_duration_secs'' = d ''maxClipTime''
      \<and> c ''min_clip_duration_secs'' = d ''minClipTime''
      \<and> c ''smoothing_width'' = d ''smoothingWidth''
      \<and> c ''window_compare_pool_method'' = d ''windowComparePoolMethod'')
   \<and> (whisperx_config_of d = Returns w \<longrightarrow>
      dom w = {''language'', ''model_size'', ''precision''}
      \<and> w ''language'' = d ''languageCode''
      \<and> w ''model_size'' = d ''whisperModelSize''
      \<and> w ''precision'' = d ''precision'')
   \<and> (\<exists>c'. texttile_config_of d = Returns c') =
       ({''cutoffPolicy'', ''embeddingAggregationPoolMethod'', ''maxClipTime'',
         ''minClipTime'', ''smoothingWidth'', ''windowComparePoolMethod''} \<subseteq> dom d)
   \<and> (\<exists>w'. whisperx_config_of d = Returns w') =
       ({''languageCode'', ''whisperModelSize'', ''precision''} \<subseteq> dom d)
   \<and> (passes [input_existence_step env d, extension_step d, device_step env d] \<longrightarrow>
        fst (check_valid_input_data env d) =
          and_then (texttile_config_of d)
            (\<lambda>config. Returns (clip_texttile_check_valid_config env config)))
   \<and> (passes [request_existence_step env d, extension_step d, device_step env d] \<longrightarrow>
        fst (check_valid_request_data env d) =
          and_then (whisperx_config_of d) (\<lambda>whisperx_config.
            case whisperx_check_valid_config env whisperx_config of
              Some error \<Rightarrow> Returns (Some error)
            | None \<Rightarrow>
                and_then (texttile_config_of d)
                  (\<lambda>config. Returns (ml_texttile_check_valid_config env config))))"
proof (intro conjI impI)
  assume "texttile_config_of d = Returns c"
  then obtain v1 v2 v3 v4 v5 v6 where
    "d ''cutoffPolicy'' = Some v1" "d ''embeddingAggregationPoolMethod'' = Some v2"
    "d ''maxClipTime'' = Some v3" "d ''minClipTime'' = Some v4"
    "d ''smoothingWidth'' = Some v5" "d ''windowComparePoolMethod'' = Some v6"
    "c = [''cutoff_policy'' \<mapsto> v1, ''embedding_aggregation_pool_method'' \<mapsto> v2,
          ''max_clip_duration_secs'' \<mapsto> v3, ''min_clip_duration_secs'' \<mapsto> v4,
          ''smoothing_width'' \<mapsto> v5, ''window_compare_pool_method'' \<mapsto> v6]"
    unfolding texttile_config_of_Returns by blast
  then show "dom c = {''cutoff_policy'', ''embedding_aggregation_pool_method'',
               ''max_clip_duration_secs'', ''min_clip_duration_secs'', ''smoothing_width'',
               ''window_compare_pool_method''}"
    and "c ''cutoff_policy'' = d ''cutoffPolicy''"
    and "c ''embedding_aggregation_pool_method'' = d ''embeddingAggregationPoolMethod''"
    and "c ''max_clip_duration_secs'' = d ''maxClipTime''"
    and "c ''min_clip_duration_secs'' = d ''minClipTime''"
    and "c ''smoothing_width'' = d ''smoothingWidth''"
    and "c ''window_compare_pool_method'' = d ''windowComparePoolMethod''"
    by auto
next
  assume "whisperx_config_of d = Returns w"
  then obtain v1 v2 v3 where
    "d ''languageCode'' = Some v1" "d ''whisperModelSize'' = Some v2"
    "d ''precision'' = Some v3"
    "w = [''language'' \<mapsto> v1, ''model_size'' \<mapsto> v2, ''precision'' \<mapsto> v3]"
    unfolding whisperx_config_of_Returns by blast
  then show "dom w = {''language'', ''model_size'', ''precision''}"
    and "w ''language'' = d ''languageCode''"
    and "w ''model_size'' = d ''whisperModelSize''"
    and "w ''precision'' = d ''precision''"
    by auto
next
  show "(\<exists>c'. texttile_config_of d = Returns c') =
       ({''cutoffPolicy'', ''embeddingAggregationPoolMethod'', ''maxClipTime'',
         ''minClipTime'', ''smoothingWidth'', ''windowComparePoolMethod''} \<subseteq> dom d)"
    by (auto simp: texttile_config_of_Returns)
next
  show "(\<exists>w'. whisperx_config_of d = Returns w') =
       ({''languageCode'', ''whisperModelSize'', ''precision''} \<subseteq> dom d)"
    by (auto simp: whisperx_config_of_Returns)
next
  assume "passes [input_existence_step env d, extension_step d, device_step env d]"
  then show "fst (check_valid_input_data env d) =
          and_then (texttile_config_of d)
            (\<lambda>config. Returns (clip_texttile_check_valid_config env config))"
    by (simp add: check_valid_input_data_steps passes_def clip_finder_step_def
        first_failure_single)
next
  assume "passes [request_existence_step env d, extension_step d, device_step env d]"
  then show "fst (check_valid_request_data env d) =
          and_then (whisperx_config_of d) (\<lambda>whisperx_config.
            case whisperx_check_valid_config env whisperx_config of
              Some error \<Rightarrow> Returns (Some error)
            | None \<Rightarrow>
                and_then (texttile_config_of d)
                  (\<lambda>config. Returns (ml_texttile_check_valid_config env config)))"
    by (simp add: check_valid_request_data_steps passes_def clip_finder_step_def
        transcriber_step_def and_then_def first_failure_single
        split: result.split option.split)
qed

theorem sub_configurations_witness:
  "texttile_config_of scenario_request =
     Returns [''cutoff_policy'' \<mapsto> PStr ''high'',
              ''embedding_aggregation_pool_method'' \<mapsto> PStr ''max'',
              ''max_clip_duration_secs'' \<mapsto> PInt 900, ''min_clip_duration_secs'' \<mapsto> PInt 15,
              ''smoothing_width'' \<mapsto> PInt 3, ''window_compare_pool_method'' \<mapsto> PStr ''mean'']
   \<and> whisperx_config_of scenario_request =
     Returns [''language'' \<mapsto> PStr ''en'', ''model_size'' \<mapsto> PNone, ''precision'' \<mapsto> PNone]
   \<and> passes [input_existence_step scenario_collaborators scenario_request,
              extension_step scenario_request,
              device_step scenario_collaborators scenario_request]
   \<and> passes [request_existence_step scenario_collaborators scenario_request,
              extension_step scenario_request,
              device_step scenario_collaborators scenario_request]
   \<and> fst (check_valid_input_data scenario_collaborators scenario_request) = Returns None
   \<and> fst (check_valid_request_data scenario_collaborators scenario_request) = Returns None"
proof -
  have a: "texttile_config_of scenario_request =
     Returns [''cutoff_policy'' \<mapsto> PStr ''high'',
              ''embedding_aggregation_pool_method'' \<mapsto> PStr ''max'',
              ''max_clip_duration_secs'' \<mapsto> PInt 900, ''min_clip_duration_secs'' \<mapsto> PInt 15,
              ''smoothing_width'' \<mapsto> PInt 3, ''window_compare_pool_method'' \<mapsto> PStr ''mean'']"
    by (simp add: scenario_defs eval_defs)
  have b: "whisperx_config_of scenario_request =
     Returns [''language'' \<mapsto> PStr ''en'', ''model_size'' \<mapsto> PNone, ''precision'' \<mapsto> PNone]"
    by (simp add: scenario_defs eval_defs)
  have p: "passes [input_existence_step scenario_collaborators scenario_request,
              extension_step scenario_request,
              device_step scenario_collaborators scenario_request]"
    by (simp add: passes_def step_defs scenario_defs eval_defs)
  have q: "passes [request_existence_step scenario_collaborators scenario_request,
              extension_step scenario_request,
              device_step scenario_collaborators scenario_request]"
    by (simp add: passes_def step_defs scenario_defs eval_defs)
  have t: "clip_texttile_check_valid_config scenario_collaborators
     [''cutoff_policy'' \<mapsto> PStr ''high'',
              ''embedding_aggregation_pool_method'' \<mapsto> PStr ''max'',
              ''max_clip_duration_secs'' \<mapsto> PInt 900, ''min_clip_duration_secs'' \<mapsto> PInt 15,
              ''smoothing_width'' \<mapsto> PInt 3, ''window_compare_pool_method'' \<mapsto> PStr ''mean''] = None"
    "ml_texttile_check_valid_config scenario_collaborators
     [''cutoff_policy'' \<mapsto> PStr ''high'',
              ''embedding_aggregation_pool_method'' \<mapsto> PStr ''max'',
              ''max_clip_duration_secs'' \<mapsto> PInt 900, ''min_clip_duration_secs'' \<mapsto> PInt 15,
              ''smoothing_width'' \<mapsto> PInt 3, ''window_compare_pool_method'' \<mapsto> PStr ''mean''] = None"
    "whisperx_check_valid_config scenario_collaborators
       [''language'' \<mapsto> PStr ''en'', ''model_size'' \<mapsto> PNone, ''precision'' \<mapsto> PNone] = None"
    by (simp_all add: scenario_defs eval_defs)
  from sub_configurations [of scenario_request _ _ scenario_collaborators] p q
  have "fst (check_valid_input_data scenario_collaborators scenario_request) = Returns None"
    and "fst (check_valid_request_data scenario_collaborators scenario_request) = Returns None"
    by (simp_all add: a b t and_then_def)
  with a b p q show ?thesis by simp
qed




text \<open>
  Claim C7. Take the existence-and-type check and the text-tiling configuration check as
  the specification describes them. For every mapping whose minClipTime is strictly
  greater than its maxClipTime (as Python compares numbers) and that passes the
  existence-and-type, extension and device checks (and, in the request validator, the
  transcriber configuration check), the validator returns the range-violation message of
  the clip-finder configuration manager, and what it returns is the manager's result
  unchanged.
\<close>

theorem min_above_max_is_rejected:
  assumes "d ''minClipTime'' = Some lo" and "d ''maxClipTime'' = Some hi"
    and "py_gt lo hi"
    and "env = spec_collaborators cutoff_policies pool_methods device_check transcriber_check"
  shows
  "(passes [input_existence_step env d, extension_step d, device_step env d] \<longrightarrow>
      fst (check_valid_input_data env d) = Returns (Some range_error)
      \<and> fst (check_valid_input_data env d)
          = clip_finder_step (clip_texttile_check_valid_config env) d)
   \<and> (passes [request_existence_step env d, extension_step d, device_step env d,
               transcriber_step env d] \<longrightarrow>
      fst (check_valid_request_data env d) = Returns (Some range_error)
      \<and> fst (check_valid_request_data env d)
          = clip_finder_step (ml_texttile_check_valid_config env) d)"
proof (intro conjI impI)
  assume p: "passes [input_existence_step env d, extension_step d, device_step env d]"
  then have "spec_check_existence_and_types d input_correct_types = None"
    by (simp add: passes_def input_existence_step_def assms(4) spec_collaborators_def)
  then obtain policy aggregation lo' hi' width compare where
    "d ''cutoffPolicy'' = Some (PStr policy)"
    "d ''embeddingAggregationPoolMethod'' = Some (PStr aggregation)"
    "d ''minClipTime'' = Some lo'" "type_of lo' \<in> {TFloat, TInt}"
    "d ''maxClipTime'' = Some hi'" "type_of hi' \<in> {TFloat, TInt}"
    "d ''smoothingWidth'' = Some (PInt width)"
    "d ''windowComparePoolMethod'' = Some (PStr compare)"
    using clip_fields_typed [of d input_correct_types]
    by (auto simp: input_correct_types_def)
  with assms(1-3)
  have "clip_finder_step (spec_texttile_check_valid_config cutoff_policies pool_methods) d
           = Returns (Some range_error)"
    by (intro spec_texttile_rejects_min_above_max) auto
  then have r: "clip_finder_step (clip_texttile_check_valid_config env) d
           = Returns (Some range_error)"
    by (simp add: assms(4) spec_collaborators_def)
  from p show s: "fst (check_valid_input_data env d)
          = clip_finder_step (clip_texttile_check_valid_config env) d"
    by (simp add: check_valid_input_data_steps passes_def first_failure_single)
  from r s show "fst (check_valid_input_data env d) = Returns (Some range_error)"
    by simp
next
  assume p: "passes [request_existence_step env d, extension_step d, device_step env d,
               transcriber_step env d]"
  then have "spec_check_existence_and_types d request_correct_types = None"
    by (simp add: passes_def request_existence_step_def assms(4) spec_collaborators_def)
  then obtain policy aggregation lo' hi' width compare where
    "d ''cutoffPolicy'' = Some (PStr policy)"
    "d ''embeddingAggregationPoolMethod'' = Some (PStr aggregation)"
    "d ''minClipTime'' = Some lo'" "type_of lo' \<in> {TFloat, TInt}"
    "d ''maxClipTime'' = Some hi'" "type_of hi' \<in> {TFloat, TInt}"
    "d ''smoothingWidth'' = Some (PInt width)"
    "d ''windowComparePoolMethod'' = Some (PStr compare)"
    using clip_fields_typed [of d request_correct_types]
    by (auto simp: request_correct_types_def)
  with assms(1-3)
  have "clip_finder_step (spec_texttile_check_valid_config cutoff_policies pool_methods) d
           = Returns (Some range_error)"
    by (intro spec_texttile_rejects_min_above_max) auto
  then have r: "clip_finder_step (ml_texttile_check_valid_config env) d
           = Returns (Some range_error)"
    by (simp add: assms(4) spec_collaborators_def)
  from p show s: "fst (check_valid_request_data env d)
          = clip_finder_step (ml_texttile_check_valid_config env) d"
    by (simp add: check_valid_request_data_steps passes_def first_failure_single)
  from r s show "fst (check_valid_request_data env d) = Returns (Some range_error)"
    by simp
qed

theorem min_above_max_is_rejected_witness:
  "(scenario_request(''minClipTime'' \<mapsto> PInt 2000)) ''minClipTime'' = Some (PInt 2000)
   \<and> (scenario_request(''minClipTime'' \<mapsto> PInt 2000)) ''maxClipTime'' = Some (PInt 900)
   \<and> py_gt (PInt 2000) (PInt 900)
   \<and> passes [input_existence_step scenario_collaborators
                (scenario_request(''minClipTime'' \<mapsto> PInt 2000)),
              extension_step (scenario_request(''minClipTime'' \<mapsto> PInt 2000)),
              device_step scenario_collaborators (scenario_request(''minClipTime'' \<mapsto> PInt 2000))]
   \<and> passes [request_existence_step scenario_collaborators
                (scenario_request(''minClipTime'' \<mapsto> PInt 2000)),
              extension_step (scenario_request(''minClipTime'' \<mapsto> PInt 2000)),
              device_step scenario_collaborators (scenario_request(''minClipTime'' \<mapsto> PInt 2000)),
              transcriber_step scenario_collaborators
                (scenario_request(''minClipTime'' \<mapsto> PInt 2000))]
   \<and> fst (check_valid_input_data scenario_collaborators
            (scenario_request(''minClipTime'' \<mapsto> PInt 2000))) = Returns (Some range_error)
   \<and> fst (check_valid_request_data scenario_collaborators
            (scenario_request(''minClipTime'' \<mapsto> PInt 2000))) = Returns (Some range_error)"
proof -
  let ?d = "scenario_request(''minClipTime'' \<mapsto> PInt 2000)"
  have a: "?d ''minClipTime'' = Some (PInt 2000)" by simp
  have b: "?d ''maxClipTime'' = Some (PInt 900)" by (simp add: scenario_defs)
  have g: "py_gt (PInt 2000) (PInt 900)" by (simp add: py_gt_def number_of_def)
  have e: "scenario_collaborators =
             spec_collaborators [''high''] [''max'', ''mean''] (\<lambda>device. None) (\<lambda>config. None)"
    by (simp add: scenario_collaborators_def)
  have p: "passes [input_existence_step scenario_collaborators ?d, extension_step ?d,
                   device_step scenario_collaborators ?d]"
    by (simp add: passes_def step_defs scenario_defs eval_defs)
  have q: "passes [request_existence_step scenario_collaborators ?d, extension_step ?d,
                   device_step scenario_collaborators ?d,
                   transcriber_step scenario_collaborators ?d]"
    by (simp add: passes_def step_defs scenario_defs eval_defs)
  from min_above_max_is_rejected [where d = ?d and env = scenario_collaborators, OF a b g e]
    p q a b g
  show ?thesis by simp
qed

end
